theory Spec2Isabelle
  imports Complex_Main "HOL-Library.Sublist"
begin

section \<open>JavaScript values\<close>

text \<open>
  The front end (static/js/app.js) receives JSON from the server and tests, prints and
  escapes it dynamically. A field that the code treats dynamically (truthiness test,
  string conversion) is a \<open>jsval\<close>; a character is a code unit below 256. Pictographs
  of the templates are outside that range and stand as bracketed ASCII names, and the
  layout whitespace between the tags of a template literal is left out.
\<close>

datatype jsval =
    JUndefined
  | JNull
  | JBool bool
  | JNum int
  | JStr string
  | JObj "(string \<times> jsval) list"

text \<open>ToBoolean: what \<open>if (v)\<close>, \<open>!v\<close>, \<open>v || d\<close> and \<open>v ? a : b\<close> test.\<close>

fun truthy :: "jsval \<Rightarrow> bool" where
  "truthy JUndefined = False"
| "truthy JNull = False"
| "truthy (JBool b) = b"
| "truthy (JNum n) = (n \<noteq> 0)"
| "truthy (JStr s) = (s \<noteq> [])"
| "truthy (JObj fs) = True"

fun show_nat :: "nat \<Rightarrow> string" where
  "show_nat n =
     (if n < 10 then [''0123456789'' ! n]
      else show_nat (n div 10) @ [''0123456789'' ! (n mod 10)])"

declare show_nat.simps [simp del]

definition show_int :: "int \<Rightarrow> string" where
  "show_int i = (if i < 0 then ''-'' @ show_nat (nat (- i)) else show_nat (nat i))"

text \<open>ToString, as a template literal \<open>${v}\<close> and the \<open>textContent\<close> setter apply it.\<close>

fun to_string :: "jsval \<Rightarrow> string" where
  "to_string JUndefined = ''undefined''"
| "to_string JNull = ''null''"
| "to_string (JBool b) = (if b then ''true'' else ''false'')"
| "to_string (JNum n) = show_int n"
| "to_string (JStr s) = s"
| "to_string (JObj fs) = ''[object Object]''"

text \<open>
  \<open>xs.slice(start, end)\<close>: a negative index counts from the end, both are clamped to
  the length, and an empty range gives the empty array.
\<close>

definition js_slice :: "'a list \<Rightarrow> int \<Rightarrow> int \<Rightarrow> 'a list" where
  "js_slice xs start end' =
     (let n = int (length xs);
          k = (if start < 0 then max (n + start) 0 else min start n);
          f = (if end' < 0 then max (n + end') 0 else min end' n)
      in take (nat (f - k)) (drop (nat k) xs))"

section \<open>escapeHtml\<close>

text \<open>
  \<open>escapeHtml\<close> assigns the value to \<open>textContent\<close> of a fresh element and reads
  \<open>innerHTML\<close> back: the browser serialises the text node, replacing the ampersand, the
  no-break space and the two angle brackets by character references.
\<close>

definition escape_char :: "char \<Rightarrow> string" where
  "escape_char c =
     (if c = CHR ''&'' then ''&amp;''
      else if c = CHR 0xA0 then ''&nbsp;''
      else if c = CHR ''<'' then ''&lt;''
      else if c = CHR ''>'' then ''&gt;''
      else [c])"

definition serialize_text :: "string \<Rightarrow> string" where
  "serialize_text s = concat (map escape_char s)"

definition escapeHtml :: "jsval \<Rightarrow> string" where
  "escapeHtml str = (if \<not> truthy str then [] else serialize_text (to_string str))"

section \<open>Events and the events table\<close>

text \<open>
  A GC event as the server sends it; an absent or null field is \<open>None\<close>. Number
  formatting (\<open>toFixed\<close>, the default number-to-string conversion) and the locale's time
  format belong to the platform and are parameters.
\<close>

record gc_event =
  gc_id :: "int option"
  timestamp :: "string option"
  uptime_seconds :: "rat option"
  pause_type :: "string option"
  gc_type :: "string option"
  cause :: "string option"
  pause_ms :: "rat option"
  heap_before_mb :: "rat option"
  heap_after_mb :: "rat option"
  heap_reclaimed_mb :: "rat option"
  heap_total_mb :: "rat option"
  is_full_gc :: "bool option"

record platform =
  toFixed :: "rat \<Rightarrow> nat \<Rightarrow> string"
  num_to_string :: "rat \<Rightarrow> string"
  toLocaleTimeString :: "string \<Rightarrow> string"

definition formatMs :: "platform \<Rightarrow> rat option \<Rightarrow> string" where
  "formatMs pf ms =
     (case ms of
        None \<Rightarrow> ''-''
      | Some v \<Rightarrow> if v \<ge> 1000 then toFixed pf (v / 1000) 2 @ ''s'' else toFixed pf v 1 @ ''ms'')"

definition formatMB :: "platform \<Rightarrow> rat option \<Rightarrow> string" where
  "formatMB pf mb =
     (case mb of
        None \<Rightarrow> ''-''
      | Some v \<Rightarrow>
          if v = 0 then ''-''
          else if v \<ge> 1024 then toFixed pf (v / 1024) 1 @ '' GB''
          else toFixed pf v 0 @ '' MB'')"

text \<open>\<open>formatTime(event.timestamp || event.uptime_seconds)\<close>.\<close>

definition formatTime :: "platform \<Rightarrow> string option \<Rightarrow> rat option \<Rightarrow> string" where
  "formatTime pf ts up =
     (case (if ts = None \<or> ts = Some [] then None else ts) of
        Some t \<Rightarrow> toLocaleTimeString pf t
      | None \<Rightarrow>
          (case up of
             None \<Rightarrow> ''-''
           | Some u \<Rightarrow> if u = 0 then ''-'' else toFixed pf u 3 @ ''s''))"

definition getPauseBadgeClass :: "rat option \<Rightarrow> string" where
  "getPauseBadgeClass ms =
     (case ms of
        None \<Rightarrow> ''fast''
      | Some v \<Rightarrow>
          if v = 0 \<or> v \<le> 10 then ''fast''
          else if v \<le> 100 then ''normal''
          else if v \<le> 500 then ''slow''
          else ''critical'')"

text \<open>\<open>a || b\<close> over optional strings, printed by a template literal.\<close>

definition str_or :: "string option \<Rightarrow> string \<Rightarrow> string" where
  "str_or a d = (case a of None \<Rightarrow> d | Some s \<Rightarrow> if s = [] then d else s)"

definition opt_str :: "string option \<Rightarrow> string" where
  "opt_str a = (case a of None \<Rightarrow> ''undefined'' | Some s \<Rightarrow> s)"

definition gt :: "rat option \<Rightarrow> rat \<Rightarrow> bool" where
  "gt a b = (case a of None \<Rightarrow> False | Some v \<Rightarrow> v > b)"

definition event_row :: "platform \<Rightarrow> gc_event \<Rightarrow> string" where
  \<open>event_row pf e =
     ''<tr class="''
       @ (if is_full_gc e = Some True then ''full-gc''
          else if gt (pause_ms e) 200 then ''long-pause'' else [])
       @ ''" data-full="''
       @ (case is_full_gc e of None \<Rightarrow> ''undefined'' | Some b \<Rightarrow> if b then ''true'' else ''false'')
       @ ''" data-pause="''
       @ (case pause_ms e of None \<Rightarrow> ''undefined'' | Some v \<Rightarrow> num_to_string pf v)
       @ ''">''
     @ ''<td>'' @ (case gc_id e of None \<Rightarrow> ''-'' | Some i \<Rightarrow> show_int i) @ ''</td>''
     @ ''<td>'' @ formatTime pf (timestamp e) (uptime_seconds e) @ ''</td>''
     @ ''<td>'' @ str_or (pause_type e) (opt_str (gc_type e)) @ ''</td>''
     @ ''<td>'' @ str_or (cause e) ''-'' @ ''</td>''
     @ ''<td><span class="pause-badge '' @ getPauseBadgeClass (pause_ms e) @ ''">''
       @ formatMs pf (pause_ms e) @ ''</span></td>''
     @ ''<td>'' @ formatMB pf (heap_before_mb e) @ ''</td>''
     @ ''<td>'' @ formatMB pf (heap_after_mb e) @ ''</td>''
     @ ''<td>'' @ formatMB pf (heap_reclaimed_mb e) @ ''</td>''
     @ ''</tr>''\<close>

definition events_table_head :: string where
  \<open>events_table_head =
     ''<div class="events-toolbar"><div class="filter-group">''
     @ ''<span class="filter-label">Filter:</span>''
     @ ''<select id="event-filter" onchange="filterEvents()">''
     @ ''<option value="all">All Events</option>''
     @ ''<option value="pause">Pause Events Only</option>''
     @ ''<option value="full">Full GC Only</option>''
     @ ''<option value="long">Long Pauses (>100ms)</option>''
     @ ''</select></div></div>''
     @ ''<div class="events-scroll"><table class="events-table"><thead><tr>''
     @ ''<th>#</th><th>Time</th><th>Type</th><th>Cause</th><th>Pause</th>''
     @ ''<th>Heap Before</th><th>Heap After</th><th>Reclaimed</th>''
     @ ''</tr></thead><tbody id="events-tbody">''\<close>

definition events_notice :: "nat \<Rightarrow> string" where
  \<open>events_notice n =
     ''<div class="empty-state">Showing first 500 of '' @ show_nat n @ '' events</div>''\<close>

text \<open>\<open>const displayEvents = events.slice(0, 500)\<close>.\<close>

definition displayEvents :: "gc_event list \<Rightarrow> gc_event list" where
  "displayEvents events = js_slice events 0 500"

text \<open>
  \<open>displayEventsTable\<close>: the argument is \<open>analysisData.events\<close> (\<open>None\<close> when the
  field is absent, which \<open>|| []\<close> turns into the empty list); the result is what the
  function assigns to the container's \<open>innerHTML\<close>.
\<close>

definition displayEventsTable :: "platform \<Rightarrow> gc_event list option \<Rightarrow> string" where
  \<open>displayEventsTable pf evs =
     (let events = (case evs of None \<Rightarrow> [] | Some es \<Rightarrow> es)
      in if length events = 0 then ''<div class="empty-state">No GC events found</div>''
         else events_table_head
              @ concat (map (event_row pf) (displayEvents events))
              @ ''</tbody></table></div>''
              @ (if length events > 500 then events_notice (length events) else []))\<close>

section \<open>The pause chart and its zoom state\<close>

text \<open>
  \<open>pauseChartZoom\<close>, the global zoom state (\<open>endIndex\<close> starts as null), and what the
  listeners of a rendered chart captured in \<open>setupPauseChartInteraction\<close>: the start
  index, the number of visible events and the chart width at the time of rendering.
  Horizontal positions are \<open>e.clientX - rect.left\<close>.
\<close>

record zoom_state =
  startIndex :: int
  endIndex :: "int option"
  isDragging :: bool
  dragStartX :: "rat option"

record chart_listeners =
  l_startIdx :: int
  l_visible :: nat
  l_chartWidth :: int

type_synonym chart_page = "zoom_state \<times> chart_listeners option"

definition pause_events :: "gc_event list \<Rightarrow> gc_event list" where
  "pause_events evs = filter (\<lambda>e. gt (pause_ms e) 0) evs"

definition padding_left :: int where
  "padding_left = 70"

definition padding_right :: int where
  "padding_right = 20"

definition setupPauseChartInteraction ::
    "gc_event list \<Rightarrow> int \<Rightarrow> zoom_state \<Rightarrow> chart_listeners" where
  "setupPauseChartInteraction allEvents chartWidth z =
     \<lparr>l_startIdx = startIndex z,
      l_visible = length (js_slice allEvents (startIndex z)
                    (case endIndex z of None \<Rightarrow> 0 | Some e \<Rightarrow> e)),
      l_chartWidth = chartWidth\<rparr>"

definition visible_events :: "gc_event list \<Rightarrow> zoom_state \<Rightarrow> gc_event list" where
  "visible_events allEvents z =
     js_slice allEvents (max 0 (startIndex z))
       (min (int (length allEvents)) (case endIndex z of None \<Rightarrow> 0 | Some e \<Rightarrow> e))"

definition init_endIndex :: "gc_event list \<Rightarrow> zoom_state \<Rightarrow> zoom_state" where
  "init_endIndex allEvents z =
     (if endIndex z = None then z\<lparr>endIndex := Some (int (length allEvents))\<rparr> else z)"

text \<open>
  \<open>displayPauseChart\<close>, as far as the zoom state and the listeners go: the empty-state
  message leaves no chart; an empty visible slice resets the range and renders again.
\<close>

lemma visible_full:
  "length allEvents \<noteq> 0 \<Longrightarrow>
   length (visible_events allEvents
     (z\<lparr>startIndex := 0, endIndex := Some (int (length allEvents))\<rparr>)) \<noteq> 0"
  by (auto simp: visible_events_def js_slice_def Let_def)

lemma init_endIndex_idem:
  "init_endIndex allEvents (z\<lparr>startIndex := s, endIndex := Some e\<rparr>) = z\<lparr>startIndex := s, endIndex := Some e\<rparr>"
  by (simp add: init_endIndex_def)

function displayPauseChart :: "gc_event list \<Rightarrow> int \<Rightarrow> zoom_state \<Rightarrow> chart_page" where
  "displayPauseChart evs width z =
     (if length (pause_events evs) = 0 then (z, None)
      else if length (visible_events (pause_events evs) (init_endIndex (pause_events evs) z)) = 0
      then displayPauseChart evs width
             ((init_endIndex (pause_events evs) z)
                \<lparr>startIndex := 0, endIndex := Some (int (length (pause_events evs)))\<rparr>)
      else (init_endIndex (pause_events evs) z,
            Some (setupPauseChartInteraction (pause_events evs)
                    (width - padding_left - padding_right)
                    (init_endIndex (pause_events evs) z))))"
  by pat_completeness auto
termination
proof (relation "measure (\<lambda>(evs, width, z).
        if length (visible_events (pause_events evs) (init_endIndex (pause_events evs) z)) = 0
        then 1 else 0)", goal_cases)
  case 1
  show ?case by simp
next
  case (2 evs width z)
  have "length (visible_events (pause_events evs)
     ((init_endIndex (pause_events evs) z)\<lparr>startIndex := 0, endIndex := Some (int (length (pause_events evs)))\<rparr>)) \<noteq> 0"
    using 2(1) by (intro visible_full)
  then show ?case
    using 2(2) by (simp only: init_endIndex_idem in_measure prod.case if_True if_False) simp
qed

declare displayPauseChart.simps [simp del]










text \<open>
  \<open>displayResults\<close> resets the range of the fresh zoom state and renders the chart.
\<close>

definition fresh_zoom :: zoom_state where
  "fresh_zoom = \<lparr>startIndex = 0, endIndex = None, isDragging = False, dragStartX = None\<rparr>"

definition displayResults_chart :: "gc_event list \<Rightarrow> int \<Rightarrow> chart_page" where
  "displayResults_chart evs width =
     displayPauseChart evs width (fresh_zoom\<lparr>startIndex := 0, endIndex := None\<rparr>)"





section \<open>formatMarkdown\<close>

text \<open>
  \<open>s.replace(/re/g, r)\<close>: the text is scanned from the left; at each position the
  expression is tried, a match is replaced and the scan goes on behind it, otherwise the
  character is kept. A matcher gets the character before the position (for \<open>^\<close> under
  the \<open>m\<close> flag) and the text from the position on, and gives the length of the match
  and its replacement. None of the expressions below matches the empty string.
\<close>

type_synonym matcher = "char option \<Rightarrow> string \<Rightarrow> (nat \<times> string) option"

fun gsub :: "matcher \<Rightarrow> char option \<Rightarrow> nat \<Rightarrow> string \<Rightarrow> string" where
  "gsub m prev k [] = []"
| "gsub m prev (Suc k) (c # cs) = gsub m (Some c) k cs"
| "gsub m prev 0 (c # cs) =
     (case m prev (c # cs) of
        None \<Rightarrow> c # gsub m (Some c) 0 cs
      | Some (n, r) \<Rightarrow> r @ gsub m (Some c) (n - 1) cs)"

definition replace_all :: "matcher \<Rightarrow> string \<Rightarrow> string" where
  "replace_all m s = gsub m None 0 s"

text \<open>
  Line terminators (what \<open>.\<close> does not match and where \<open>^\<close> and \<open>$\<close> anchor),
  white space (\<open>\s\<close>, and what \<open>trim\<close> strips) and digits (\<open>\d\<close>), among the code
  units below 256.
\<close>

definition is_line_terminator :: "char \<Rightarrow> bool" where
  "is_line_terminator c = (c = CHR 0x0A \<or> c = CHR 0x0D)"

definition is_js_space :: "char \<Rightarrow> bool" where
  "is_js_space c =
     (c = CHR 0x09 \<or> c = CHR 0x0A \<or> c = CHR 0x0B \<or> c = CHR 0x0C \<or> c = CHR 0x0D
      \<or> c = CHR 0x20 \<or> c = CHR 0xA0)"

definition is_digit :: "char \<Rightarrow> bool" where
  "is_digit c = (c \<in> set ''0123456789'')"

definition at_line_start :: "char option \<Rightarrow> bool" where
  "at_line_start prev = (case prev of None \<Rightarrow> True | Some c \<Rightarrow> is_line_terminator c)"

definition line_rest :: "string \<Rightarrow> string" where
  "line_rest s = takeWhile (\<lambda>c. \<not> is_line_terminator c) s"

text \<open>
  \<open>/^PRE(.+)$/gm\<close> replaced by \<open>OPEN$1CLOSE\<close>: at the start of a line that begins with
  \<open>PRE\<close> and goes on for at least one character, the greedy group takes the rest of
  the line.
\<close>

definition m_line :: "string \<Rightarrow> string \<Rightarrow> string \<Rightarrow> matcher" where
  "m_line pre opn cls prev s =
     (let rest = line_rest (drop (length pre) s)
      in if at_line_start prev \<and> prefix pre s \<and> rest \<noteq> []
         then Some (length pre + length rest, opn @ rest @ cls)
         else None)"

text \<open>
  \<open>/\*\*(.+?)\*\*/g\<close>: the lazy group takes one character of the line and then as few
  more as possible until two asterisks follow.
\<close>

fun lazy_to_stars :: "string \<Rightarrow> string option" where
  "lazy_to_stars [] = None"
| "lazy_to_stars (c # cs) =
     (if prefix ''**'' (c # cs) then Some []
      else if is_line_terminator c then None
      else map_option (Cons c) (lazy_to_stars cs))"

definition bold_group :: "string \<Rightarrow> string option" where
  "bold_group t =
     (case t of
        [] \<Rightarrow> None
      | c # cs \<Rightarrow> if is_line_terminator c then None else map_option (Cons c) (lazy_to_stars cs))"

definition m_bold :: matcher where
  "m_bold prev s =
     (if prefix ''**'' s then
        (case bold_group (drop 2 s) of
           None \<Rightarrow> None
         | Some g \<Rightarrow> Some (length g + 4, ''<strong>'' @ g @ ''</strong>''))
      else None)"

text \<open>\<open>/`([^`]+)`/g\<close>: a backtick, the longest run without one, a backtick.\<close>

definition m_code :: matcher where
  "m_code prev s =
     (case s of
        [] \<Rightarrow> None
      | c # t \<Rightarrow>
          let g = takeWhile (\<lambda>x. x \<noteq> CHR 0x60) t
          in if c = CHR 0x60 \<and> g \<noteq> [] \<and> prefix [CHR 0x60] (drop (length g) t)
             then Some (length g + 2, ''<code>'' @ g @ ''</code>'')
             else None)"

text \<open>\<open>/^(\d+)\. (.+)$/gm\<close> replaced by \<open><li>$2</li>\<close>.\<close>

definition m_numbered :: matcher where
  "m_numbered prev s =
     (let d = takeWhile is_digit s;
          t = drop (length d) s;
          rest = line_rest (drop 2 t)
      in if at_line_start prev \<and> d \<noteq> [] \<and> prefix ''. '' t \<and> rest \<noteq> []
         then Some (length d + 2 + length rest, ''<li>'' @ rest @ ''</li>'')
         else None)"

text \<open>
  \<open>/(<li>.*<\/li>)+/g\<close> replaced by \<open><ul>$&</ul>\<close>: the greedy \<open>.*\<close> runs to the
  end of the line and backs up to the last \<open></li>\<close> of the line; behind it the group
  cannot match again.
\<close>

fun last_index :: "string \<Rightarrow> string \<Rightarrow> nat option" where
  "last_index p [] = (if p = [] then Some 0 else None)"
| "last_index p (c # cs) =
     (case last_index p cs of
        Some k \<Rightarrow> Some (Suc k)
      | None \<Rightarrow> if prefix p (c # cs) then Some 0 else None)"

definition m_list :: matcher where
  "m_list prev s =
     (if prefix ''<li>'' s then
        (case last_index ''</li>'' (line_rest (drop 4 s)) of
           None \<Rightarrow> None
         | Some k \<Rightarrow> Some (k + 9, ''<ul>'' @ take (k + 9) s @ ''</ul>''))
      else None)"

text \<open>A literal text replaced by another.\<close>

definition m_lit :: "string \<Rightarrow> string \<Rightarrow> matcher" where
  "m_lit pat rep prev s = (if prefix pat s then Some (length pat, rep) else None)"

text \<open>\<open>/<p>\s*<\/p>/g\<close> replaced by the empty string.\<close>

definition m_empty_p :: matcher where
  "m_empty_p prev s =
     (let w = takeWhile is_js_space (drop 3 s)
      in if prefix ''<p>'' s \<and> prefix ''</p>'' (drop (3 + length w) s)
         then Some (length w + 7, [])
         else None)"

text \<open>\<open>/<p>(<h[123]>)/g\<close> and \<open>/(<\/h[123]>)<\/p>/g\<close>, both replaced by \<open>$1\<close>.\<close>

definition m_p_heading :: matcher where
  "m_p_heading prev s =
     (if prefix ''<p><h1>'' s \<or> prefix ''<p><h2>'' s \<or> prefix ''<p><h3>'' s
      then Some (7, take 4 (drop 3 s)) else None)"

definition m_heading_p :: matcher where
  "m_heading_p prev s =
     (if prefix ''</h1></p>'' s \<or> prefix ''</h2></p>'' s \<or> prefix ''</h3></p>'' s
      then Some (9, take 5 s) else None)"

text \<open>The rewrites of \<open>formatMarkdown\<close>, in the order of the source.\<close>

definition md_rewrites :: "string \<Rightarrow> string" where
  "md_rewrites html0 =
     (let html1 = replace_all (m_line ''### '' ''<h3>'' ''</h3>'') html0;
          html2 = replace_all (m_line ''## '' ''<h2>'' ''</h2>'') html1;
          html3 = replace_all (m_line ''# '' ''<h1>'' ''</h1>'') html2;
          html4 = replace_all m_bold html3;
          html5 = replace_all m_code html4;
          html6 = replace_all (m_line ''- '' ''<li>'' ''</li>'') html5;
          html7 = replace_all m_numbered html6;
          html8 = replace_all m_list html7;
          html9 = replace_all (m_lit [CHR 0x0A, CHR 0x0A] ''</p><p>'') html8;
          html10 = ''<p>'' @ html9 @ ''</p>'';
          html11 = replace_all m_empty_p html10;
          html12 = replace_all m_p_heading html11;
          html13 = replace_all m_heading_p html12;
          html14 = replace_all (m_lit ''<p><ul>'' ''<ul>'') html13;
          html15 = replace_all (m_lit ''</ul></p>'' ''</ul>'') html14
      in html15)"

definition formatMarkdown :: "jsval \<Rightarrow> string" where
  "formatMarkdown text = (if \<not> truthy text then [] else md_rewrites (escapeHtml text))"

section \<open>The analysis result and its renderers\<close>

text \<open>
  An issue of the analysis. \<open>issue.type.replace(/_/g, ' ')\<close> needs a string, so the
  type is one; severity and description are printed or escaped as they come.
\<close>

record issue =
  issue_type :: string
  severity :: jsval
  description :: jsval

text \<open>
  \<open>analysisData\<close>, the response of the analyze endpoint, with the fields the functions
  below read: the events, \<open>statistics.pause_distribution\<close> (an object from bucket
  names to counts, in the order of its keys) and the issues.
\<close>

record analysis_data =
  collector_type :: string
  events :: "gc_event list option"
  pause_distribution :: "(string \<times> nat) list option"
  issues :: "issue list option"

definition underscores_to_spaces :: "string \<Rightarrow> string" where
  "underscores_to_spaces s = map (\<lambda>c. if c = CHR ''_'' then CHR '' '' else c) s"

definition issue_card :: "issue \<Rightarrow> string" where
  \<open>issue_card i =
     ''<div class="issue-card '' @ to_string (severity i) @ ''">''
     @ ''<div class="issue-header">''
     @ ''<span class="issue-type">'' @ underscores_to_spaces (issue_type i) @ ''</span>''
     @ ''<span class="issue-severity '' @ to_string (severity i) @ ''">''
       @ to_string (severity i) @ ''</span>''
     @ ''</div>''
     @ ''<div class="issue-description">'' @ escapeHtml (description i) @ ''</div>''
     @ ''</div>''\<close>

definition displayIssues :: "analysis_data \<Rightarrow> string" where
  \<open>displayIssues ad =
     (let iss = (case issues ad of None \<Rightarrow> [] | Some xs \<Rightarrow> xs)
      in if length iss = 0 then
           ''<div class="empty-state" style="color: var(--severity-healthy);">''
           @ ''[check] No significant issues detected</div>''
         else ''<div class="issues-list">'' @ concat (map issue_card iss) @ ''</div>'')\<close>

subsection \<open>The distribution chart\<close>

definition bucketOrder :: "string list" where
  "bucketOrder = [''0-10ms'', ''10-50ms'', ''50-100ms'', ''100-500ms'', ''500ms-1s'', ''>1s'']"

definition bucketColors :: "string \<Rightarrow> string" where
  "bucketColors b =
     (if b = ''100-500ms'' then ''medium''
      else if b = ''500ms-1s'' \<or> b = ''>1s'' then ''high''
      else [])"

text \<open>\<open>dist[bucket] || 0\<close>.\<close>

definition bucket_count :: "(string \<times> nat) list \<Rightarrow> string \<Rightarrow> nat" where
  "bucket_count pd bucket = (case map_of pd bucket of None \<Rightarrow> 0 | Some c \<Rightarrow> c)"

text \<open>
  \<open>Math.max(...Object.values(dist))\<close> is minus infinity for an object without keys;
  then, and when every count is 0, \<open>maxCount > 0\<close> fails and the width is 0.
\<close>

definition bar_percent :: "(string \<times> nat) list \<Rightarrow> nat \<Rightarrow> rat" where
  "bar_percent pd count =
     (if pd \<noteq> [] \<and> Max (set (map snd pd)) > 0
      then (of_nat count / of_nat (Max (set (map snd pd)))) * 100
      else 0)"

record dist_bar =
  bar_label :: string
  bar_color :: string
  bar_width :: rat
  bar_count :: nat

definition dist_bars :: "(string \<times> nat) list \<Rightarrow> dist_bar list" where
  "dist_bars pd =
     map (\<lambda>bucket.
            \<lparr>bar_label = bucket, bar_color = bucketColors bucket,
             bar_width = bar_percent pd (bucket_count pd bucket),
             bar_count = bucket_count pd bucket\<rparr>)
         bucketOrder"

definition dist_bar_html :: "platform \<Rightarrow> (nat \<Rightarrow> string) \<Rightarrow> dist_bar \<Rightarrow> string" where
  \<open>dist_bar_html pf toLocaleString b =
     ''<div class="dist-bar">''
     @ ''<div class="dist-label">'' @ bar_label b @ ''</div>''
     @ ''<div class="dist-track"><div class="dist-fill '' @ bar_color b
       @ ''" style="width: '' @ num_to_string pf (bar_width b) @ ''%"></div></div>''
     @ ''<div class="dist-count">'' @ toLocaleString (bar_count b) @ ''</div>''
     @ ''</div>''\<close>

definition displayDistributionChart ::
    "platform \<Rightarrow> (nat \<Rightarrow> string) \<Rightarrow> analysis_data \<Rightarrow> string" where
  \<open>displayDistributionChart pf toLocaleString ad =
     (case pause_distribution ad of
        None \<Rightarrow> ''<div class="empty-state">No distribution data</div>''
      | Some pd \<Rightarrow>
          ''<div class="distribution-chart">''
          @ concat (map (dist_bar_html pf toLocaleString) (dist_bars pd))
          @ ''</div>'')\<close>

subsection \<open>The result of the agentic investigation\<close>

record agent_step =
  step :: "int option"
  thought :: jsval
  action :: jsval
  observation :: jsval
  is_final :: jsval

record recommendation =
  flag :: jsval
  reason :: jsval
  priority :: jsval

record agentic_result =
  steps :: "agent_step list option"
  total_steps :: "int option"
  final_answer :: jsval
  recommendations :: "recommendation list option"
  issues_found :: "issue list option"
  model :: jsval
  error :: jsval

definition show_opt_int :: "int option \<Rightarrow> string" where
  "show_opt_int v = (case v of None \<Rightarrow> ''undefined'' | Some i \<Rightarrow> show_int i)"

definition step_action_html :: "jsval \<Rightarrow> string" where
  \<open>step_action_html a =
     (if truthy a then ''<div class="agentic-step-action">'' @ escapeHtml a @ ''</div>''
      else [])\<close>

definition step_html :: "agent_step \<Rightarrow> string" where
  \<open>step_html s =
     ''<div class="agentic-step '' @ (if truthy (is_final s) then ''expanded'' else [])
       @ '' '' @ (if truthy (is_final s) then ''final'' else [])
       @ ''" onclick="this.classList.toggle('expanded')">''
     @ ''<div class="agentic-step-header">''
     @ ''<div class="agentic-step-number">'' @ show_opt_int (step s) @ ''</div>''
     @ ''<div class="agentic-step-thought">''
       @ escapeHtml (if truthy (thought s) then thought s else JStr ''Thinking...'')
       @ ''</div>''
     @ step_action_html (action s)
     @ ''</div>''
     @ (if truthy (observation s) then
          ''<div class="agentic-step-body"><div class="agentic-observation">''
          @ escapeHtml (observation s) @ ''</div></div>''
        else [])
     @ ''</div>''\<close>

definition recommendation_html :: "recommendation \<Rightarrow> string" where
  \<open>recommendation_html r =
     ''<div class="agentic-rec-item">''
     @ ''<div class="agentic-rec-priority">''
       @ (if priority r = JStr ''high'' then ''[red]'' else ''[yellow]'') @ ''</div>''
     @ ''<div class="agentic-rec-content">''
     @ ''<div class="agentic-rec-flag">'' @ escapeHtml (flag r) @ ''</div>''
     @ ''<div class="agentic-rec-reason">'' @ escapeHtml (reason r) @ ''</div>''
     @ ''</div></div>''\<close>

definition severityColor :: "issue \<Rightarrow> string" where
  "severityColor i =
     (if severity i = JStr ''critical'' then ''var(--severity-critical)''
      else ''var(--severity-warning)'')"

definition found_issue_html :: "issue \<Rightarrow> string" where
  \<open>found_issue_html i =
     ''<div class="agentic-rec-item" style="border-left: 3px solid '' @ severityColor i @ '';">''
     @ ''<div class="agentic-rec-content">''
     @ ''<div style="color: '' @ severityColor i
       @ ''; font-weight: 500; text-transform: capitalize;">''
     @ escapeHtml (JStr (underscores_to_spaces (issue_type i)))
     @ ''</div></div></div>''\<close>

definition displayAgenticResult :: "agentic_result \<Rightarrow> string" where
  \<open>displayAgenticResult result =
     ''<div class="agentic-result">''
     @ (case steps result of
          None \<Rightarrow> []
        | Some ss \<Rightarrow>
            if length ss > 0 then
              ''<div class="agentic-trace">''
              @ ''<h3 style="color: var(--accent-cyan); margin-bottom: 1rem;">''
              @ ''[microscope] Investigation Trace ('' @ show_opt_int (total_steps result)
              @ '' steps)</h3>''
              @ concat (map step_html ss)
              @ ''</div>''
            else [])
     @ (if truthy (final_answer result) then
          ''<div class="agentic-final-answer">''
          @ ''<div class="agentic-final-header"><span>[done]</span> Analysis Complete</div>''
          @ ''<div class="ai-result">'' @ formatMarkdown (final_answer result) @ ''</div>''
          @ ''</div>''
        else [])
     @ (case recommendations result of
          None \<Rightarrow> []
        | Some rs \<Rightarrow>
            if length rs > 0 then
              ''<div class="agentic-recommendations">''
              @ ''<div class="agentic-rec-title">[target] Tuning Recommendations</div>''
              @ concat (map recommendation_html rs)
              @ ''</div>''
            else [])
     @ (case issues_found result of
          None \<Rightarrow> []
        | Some iss \<Rightarrow>
            if length iss > 0 then
              ''<div style="margin-top: 1.5rem;">''
              @ ''<div class="agentic-rec-title">''
              @ ''[warning] Issues Discovered During Investigation</div>''
              @ concat (map found_issue_html iss)
              @ ''</div>''
            else [])
     @ ''</div>''\<close>

section \<open>Requests to the server\<close>

text \<open>
  A \<open>fetch\<close> call, the server's behaviour towards it and the promise it settles to.
  The server answers after some milliseconds, fails after some, or never answers; a
  request with \<open>signal: AbortSignal.timeout(t)\<close> is rejected at \<open>t\<close> if nothing came
  before. A response is taken to arrive whole; reading its JSON gives the parsed body, or
  throws (no JSON, or a body whose fields cannot be read).
\<close>

datatype req_body = NoBody | AnalysisBody analysis_data | ChatBody string analysis_data

record request =
  url :: string
  http_method :: string
  timeout_ms :: "nat option"
  body :: req_body

record 'b response =
  ok :: bool
  json :: "string + 'b"

datatype 'a settled = Rejected string | Resolved 'a

datatype 'b server = Answers nat "'b response" | Fails nat string | Silent

definition timeout_message :: string where
  "timeout_message = ''signal timed out''"

definition fetch :: "request \<Rightarrow> 'b server \<Rightarrow> ('b response settled \<times> nat) option" where
  "fetch rq sv =
     (case sv of
        Answers d r \<Rightarrow>
          (case timeout_ms rq of
             None \<Rightarrow> Some (Resolved r, d)
           | Some t \<Rightarrow> if d < t then Some (Resolved r, d) else Some (Rejected timeout_message, t))
      | Fails d msg \<Rightarrow>
          (case timeout_ms rq of
             None \<Rightarrow> Some (Rejected msg, d)
           | Some t \<Rightarrow> if d < t then Some (Rejected msg, d) else Some (Rejected timeout_message, t))
      | Silent \<Rightarrow>
          (case timeout_ms rq of
             None \<Rightarrow> None
           | Some t \<Rightarrow> Some (Rejected timeout_message, t)))"

text \<open>
  The part of the page the AI functions write: the panel \<open>ai-analysis\<close>, the AI tab
  (if the page has one), the model badge, the two buttons and the console. An
  asynchronous function gives the page it leaves, the requests it sent and the time at
  which it returns, if it does.
\<close>

record ui =
  ai_panel :: string
  ai_tab :: "string option"
  model_badge :: string
  quick_btn_disabled :: bool
  quick_btn_html :: string
  agentic_btn_disabled :: bool
  agentic_btn_html :: string
  console :: "string list"

type_synonym 'u async = "'u \<times> request list \<times> nat option"

definition ai_error_html :: "string \<Rightarrow> string" where
  \<open>ai_error_html msg = ''<div class="ai-error">[cross] '' @ msg @ ''</div>''\<close>

subsection \<open>Quick analysis\<close>


definition set_badge :: "jsval \<Rightarrow> ui \<Rightarrow> ui" where
  "set_badge m u = (if truthy m then u\<lparr>model_badge := to_string m\<rparr> else u)"







subsection \<open>Agentic analysis on request\<close>

definition agentic_request :: "analysis_data \<Rightarrow> request" where
  "agentic_request ad =
     \<lparr>url = ''/agentic-analyze'', http_method = ''POST'', timeout_ms = None,
      body = AnalysisBody ad\<rparr>"




definition agentic_show :: "agentic_result \<Rightarrow> ui \<Rightarrow> ui" where
  "agentic_show result u =
     (if truthy (error result) then u\<lparr>ai_panel := ai_error_html (escapeHtml (error result))\<rparr>
      else set_badge (model result) (u\<lparr>ai_panel := displayAgenticResult result\<rparr>))"


subsection \<open>Agentic analysis started by itself\<close>

record health_body =
  available :: jsval

definition health_request :: request where
  "health_request =
     \<lparr>url = ''/ai-health'', http_method = ''GET'', timeout_ms = Some 3000, body = NoBody\<rparr>"

text \<open>
  The first part of \<open>autoStartAgenticAnalysis\<close>: the health request and what the
  function makes of its result.
\<close>

datatype health_verdict = Available | NotOk | NotRunning | Thrown string

definition health_check :: "health_body server \<Rightarrow> (health_verdict \<times> nat) option" where
  "health_check sv =
     (case fetch health_request sv of
        None \<Rightarrow> None
      | Some (Rejected msg, t) \<Rightarrow> Some (Thrown msg, t)
      | Some (Resolved healthCheck, t) \<Rightarrow>
          if \<not> ok healthCheck then Some (NotOk, t)
          else
            (case json healthCheck of
               Inl msg \<Rightarrow> Some (Thrown msg, t)
             | Inr health \<Rightarrow>
                 if \<not> truthy (available health) then Some (NotRunning, t)
                 else Some (Available, t)))"

definition log :: "string \<Rightarrow> ui \<Rightarrow> ui" where
  "log line u = u\<lparr>console := console u @ [line]\<rparr>"

definition set_tab :: "string \<Rightarrow> ui \<Rightarrow> ui" where
  "set_tab html u = (case ai_tab u of None \<Rightarrow> u | Some old \<Rightarrow> u\<lparr>ai_tab := Some html\<rparr>)"

definition auto_catch :: "string \<Rightarrow> ui \<Rightarrow> ui" where
  "auto_catch msg u = set_tab ''[robot] AI Analysis'' (log (''Auto-analysis skipped: '' @ msg) u)"

definition auto_start :: "ui \<Rightarrow> ui" where
  \<open>auto_start u =
     (set_tab ''[robot] AI Analysis <span class="auto-analyzing">[dot]</span>''
        (log ''Ollama available, auto-starting agentic analysis'' u))
     \<lparr>ai_panel :=
        ''<div class="ai-auto-start"><div class="ai-loading"><div class="spinner"></div>''
        @ ''<div class="ai-loading-text">''
        @ ''[microscope] Agent is automatically investigating your GC logs...<br>''
        @ ''<small style="color: var(--text-muted);">You can explore the charts while ''
        @ ''this runs</small></div></div></div>''\<rparr>\<close>

definition auto_show :: "agentic_result \<Rightarrow> ui \<Rightarrow> ui" where
  \<open>auto_show result u =
     agentic_show result
       (set_tab ''[robot] AI Analysis <span class="analysis-ready">[check]</span>'' u)\<close>

definition autoStartAgenticAnalysis ::
    "analysis_data \<Rightarrow> health_body server \<Rightarrow> agentic_result server \<Rightarrow> ui \<Rightarrow> ui async" where
  "autoStartAgenticAnalysis ad health_sv agentic_sv u =
     (case health_check health_sv of
        None \<Rightarrow> (u, [health_request], None)
      | Some (Thrown msg, t) \<Rightarrow> (auto_catch msg u, [health_request], Some t)
      | Some (NotOk, t) \<Rightarrow>
          (log ''AI not available, skipping auto-analysis'' u, [health_request], Some t)
      | Some (NotRunning, t) \<Rightarrow>
          (log ''Ollama not running, skipping auto-analysis'' u, [health_request], Some t)
      | Some (Available, t) \<Rightarrow>
          (case fetch (agentic_request ad) agentic_sv of
             None \<Rightarrow> (auto_start u, [health_request, agentic_request ad], None)
           | Some (Rejected msg, t') \<Rightarrow>
               (auto_catch msg (auto_start u), [health_request, agentic_request ad], Some (t + t'))
           | Some (Resolved r, t') \<Rightarrow>
               (case json r of
                  Inl msg \<Rightarrow>
                    (auto_catch msg (auto_start u), [health_request, agentic_request ad],
                     Some (t + t'))
                | Inr result \<Rightarrow>
                    (auto_show result (auto_start u), [health_request, agentic_request ad],
                     Some (t + t')))))"

text \<open>
  The automatic analysis was skipped: nothing but the health request was sent, the panel
  and the badge are as before, and the function returned within the timeout.
\<close>

definition auto_skipped :: "analysis_data \<Rightarrow> health_body server \<Rightarrow> agentic_result server \<Rightarrow> ui \<Rightarrow> bool" where
  "auto_skipped ad h a u =
     (case autoStartAgenticAnalysis ad h a u of
        (u', rqs, fin) \<Rightarrow>
          rqs = [health_request] \<and> ai_panel u' = ai_panel u \<and> model_badge u' = model_badge u
          \<and> (case fin of None \<Rightarrow> False | Some t \<Rightarrow> t \<le> 3000))"

subsection \<open>displayResults\<close>

text \<open>
  \<open>displayResults\<close> renders the sections of the page and then starts
  \<open>autoStartAgenticAnalysis\<close>, which it does not wait for. The pause chart filters
  \<open>analysisData.events\<close> and throws when the field is absent; the summary cards, the
  heap chart and the timeline chart are not part of this model.
\<close>

record results_view =
  rv_chart :: chart_page
  rv_distribution :: string
  rv_issues :: string
  rv_events_table :: string
  rv_auto :: "ui async"

definition displayResults ::
    "platform \<Rightarrow> (nat \<Rightarrow> string) \<Rightarrow> int \<Rightarrow> analysis_data \<Rightarrow> health_body server
     \<Rightarrow> agentic_result server \<Rightarrow> ui \<Rightarrow> string + results_view" where
  "displayResults pf toLocaleString width ad health_sv agentic_sv u =
     (case events ad of
        None \<Rightarrow> Inl ''TypeError''
      | Some evs \<Rightarrow>
          Inr \<lparr>rv_chart = displayResults_chart evs width,
               rv_distribution = displayDistributionChart pf toLocaleString ad,
               rv_issues = displayIssues ad,
               rv_events_table = displayEventsTable pf (events ad),
               rv_auto = autoStartAgenticAnalysis ad health_sv agentic_sv u\<rparr>)"

subsection \<open>Chat\<close>

text \<open>
  The chat box: the input field and the elements of \<open>ai-chat-messages\<close>.
  \<open>Date.now()\<close>, which names the placeholder of the answer, is a parameter.
\<close>

record chat_message =
  m_class :: string
  m_id :: "string option"
  m_html :: string

record chat_ui =
  input_value :: string
  input_disabled :: bool
  messages :: "chat_message list"

record chat_result =
  c_answer :: jsval
  c_error :: jsval

definition trim :: "string \<Rightarrow> string" where
  "trim s = rev (dropWhile is_js_space (rev (dropWhile is_js_space s)))"

definition chat_request :: "string \<Rightarrow> analysis_data \<Rightarrow> request" where
  "chat_request question ad =
     \<lparr>url = ''/ai-chat'', http_method = ''POST'', timeout_ms = None,
      body = ChatBody question ad\<rparr>"

text \<open>\<open>document.getElementById(id)\<close> and an assignment to the element found.\<close>

fun update_by_id :: "string \<Rightarrow> (chat_message \<Rightarrow> chat_message) \<Rightarrow> chat_message list \<Rightarrow> chat_message list" where
  "update_by_id i f [] = []"
| "update_by_id i f (m # ms) = (if m_id m = Some i then f m # ms else m # update_by_id i f ms)"

definition chat_start :: "string \<Rightarrow> nat \<Rightarrow> chat_ui \<Rightarrow> chat_ui" where
  "chat_start question now c =
     c\<lparr>messages := messages c
          @ [\<lparr>m_class = ''ai-chat-message user'', m_id = None, m_html = escapeHtml (JStr question)\<rparr>,
             \<lparr>m_class = ''ai-chat-message assistant'', m_id = Some (''loading-'' @ show_nat now),
              m_html = ''Thinking...''\<rparr>],
       input_value := [], input_disabled := True\<rparr>"

definition chat_finally :: "chat_ui \<Rightarrow> chat_ui" where
  "chat_finally c = c\<lparr>input_disabled := False\<rparr>"

definition chat_catch :: "nat \<Rightarrow> string \<Rightarrow> chat_ui \<Rightarrow> chat_ui" where
  "chat_catch now msg c =
     c\<lparr>messages := update_by_id (''loading-'' @ show_nat now)
          (\<lambda>m. m\<lparr>m_class := ''ai-chat-message error'',
                 m_html := ''Failed to get response: '' @ escapeHtml (JStr msg)\<rparr>)
          (messages c)\<rparr>"

definition chat_show :: "nat \<Rightarrow> chat_result \<Rightarrow> chat_ui \<Rightarrow> chat_ui" where
  "chat_show now result c =
     c\<lparr>messages := update_by_id (''loading-'' @ show_nat now)
          (\<lambda>m. if truthy (c_error result)
               then m\<lparr>m_class := ''ai-chat-message error'', m_html := escapeHtml (c_error result)\<rparr>
               else m\<lparr>m_html := formatMarkdown (c_answer result)\<rparr>)
          (messages c)\<rparr>"

definition sendChatMessage ::
    "analysis_data \<Rightarrow> nat \<Rightarrow> chat_result server \<Rightarrow> chat_ui \<Rightarrow> chat_ui async" where
  "sendChatMessage ad now sv c =
     (let question = trim (input_value c)
      in if question = [] then (c, [], Some 0)
         else
           (case fetch (chat_request question ad) sv of
              None \<Rightarrow> (chat_start question now c, [chat_request question ad], None)
            | Some (Rejected msg, t) \<Rightarrow>
                (chat_finally (chat_catch now msg (chat_start question now c)),
                 [chat_request question ad], Some t)
            | Some (Resolved r, t) \<Rightarrow>
                (case json r of
                   Inl msg \<Rightarrow>
                     (chat_finally (chat_catch now msg (chat_start question now c)),
                      [chat_request question ad], Some t)
                 | Inr result \<Rightarrow>
                     (chat_finally (chat_show now result (chat_start question now c)),
                      [chat_request question ad], Some t))))"

section \<open>The pause distribution of the aggregator\<close>




section \<open>The agent controller\<close>

text \<open>
  Modelled from the spec: the agent controller runs on the server and is not in the
  sources; the front end only renders its result. Section 4.4 of the spec gives the
  loop: each cycle asks the model for a thought with either a final answer or a tool
  call; a final answer ends the run with a step marked final; a tool call is dispatched
  (an unknown tool gives a dispatch error as the observation, section 7), its observation
  is appended to the context and the step is recorded. The step cap \<open>N_max\<close> is a
  terminal transition: the cycle that reaches it ends the trace with a step marked final
  and a conclusion made from the observations so far. A model call that fails or times
  out ends the run early in the same way (section 7). The model is any function from the
  context to a reply.
\<close>

datatype llm_reply =
    FinalAnswer string string
  | ToolCall string string "string list"
  | LlmFailure

record trace_step =
  ts_step :: nat
  ts_thought :: string
  ts_action :: "(string \<times> string list) option"
  ts_observation :: "string option"
  ts_is_final :: bool

record agent_run =
  ar_steps :: "trace_step list"
  ar_final_answer :: "string option"

type_synonym llm = "string list \<Rightarrow> llm_reply"
type_synonym tool_registry = "string \<Rightarrow> (string list \<Rightarrow> string option) option"

definition dispatch :: "tool_registry \<Rightarrow> string \<Rightarrow> string list \<Rightarrow> string" where
  "dispatch tools name args =
     (case tools name of
        None \<Rightarrow> ''ToolDispatchError: unknown tool '' @ name
      | Some tool \<Rightarrow>
          (case tool args of
             None \<Rightarrow> ''ToolDispatchError: invalid arguments for '' @ name
           | Some result \<Rightarrow> result))"

definition best_effort :: "string list \<Rightarrow> string" where
  "best_effort observations =
     ''Investigation stopped before a final answer. Last observations: ''
     @ concat (map (\<lambda>ob. ob @ ''; '') observations)"

text \<open>
  The loop, with the number of cycles left before the cap, the number of the next step,
  the context and the observations so far.
\<close>

fun agent_loop ::
    "llm \<Rightarrow> tool_registry \<Rightarrow> nat \<Rightarrow> nat \<Rightarrow> string list \<Rightarrow> string list \<Rightarrow> agent_run" where
  "agent_loop ask tools 0 k ctx obs = \<lparr>ar_steps = [], ar_final_answer = None\<rparr>"
| "agent_loop ask tools (Suc left) k ctx obs =
     (case ask ctx of
        FinalAnswer th answer \<Rightarrow>
          \<lparr>ar_steps = [\<lparr>ts_step = k, ts_thought = th, ts_action = None, ts_observation = None,
                         ts_is_final = True\<rparr>],
           ar_final_answer = Some answer\<rparr>
      | LlmFailure \<Rightarrow>
          \<lparr>ar_steps = [\<lparr>ts_step = k, ts_thought = ''The model did not answer'',
                         ts_action = None, ts_observation = None, ts_is_final = True\<rparr>],
           ar_final_answer = Some (best_effort obs)\<rparr>
      | ToolCall th name args \<Rightarrow>
          (let ob = dispatch tools name args
           in if left = 0 then
                \<lparr>ar_steps = [\<lparr>ts_step = k, ts_thought = th, ts_action = Some (name, args),
                               ts_observation = Some ob, ts_is_final = True\<rparr>],
                 ar_final_answer = Some (best_effort (obs @ [ob]))\<rparr>
              else
                (let rest = agent_loop ask tools left (Suc k) (ctx @ [ob]) (obs @ [ob])
                 in rest\<lparr>ar_steps :=
                      \<lparr>ts_step = k, ts_thought = th, ts_action = Some (name, args),
                       ts_observation = Some ob, ts_is_final = False\<rparr> # ar_steps rest\<rparr>)))"

definition run_agent :: "llm \<Rightarrow> tool_registry \<Rightarrow> nat \<Rightarrow> string list \<Rightarrow> agent_run" where
  "run_agent ask tools N_max input = agent_loop ask tools N_max 1 input []"

definition sample_tools :: tool_registry where
  "sample_tools name =
     (if name = ''get_summary'' then Some (\<lambda>args. Some ''severity: critical'') else None)"

definition stubborn_model :: llm where
  "stubborn_model ctx = ToolCall ''Let me look again'' ''get_summary'' []"

section \<open>The markup of a text\<close>

text \<open>
  What a browser takes for tags when a text is assigned to \<open>innerHTML\<close>.
  \<open>tags_of\<close> lists the tags of a text in order, a tag being what stands between a
  \<open><\<close> and the next \<open>>\<close>; there is no list when a \<open>>\<close> stands outside a tag, a
  \<open><\<close> inside one, or the text ends inside a tag.
\<close>

fun scan_tags :: "string option \<Rightarrow> string \<Rightarrow> string list option" where
  "scan_tags None [] = Some []"
| "scan_tags (Some t) [] = None"
| "scan_tags None (c # cs) =
     (if c = CHR ''<'' then scan_tags (Some []) cs
      else if c = CHR ''>'' then None
      else scan_tags None cs)"
| "scan_tags (Some t) (c # cs) =
     (if c = CHR ''>'' then map_option (Cons t) (scan_tags None cs)
      else if c = CHR ''<'' then None
      else scan_tags (Some (t @ [c])) cs)"

definition tags_of :: "string \<Rightarrow> string list option" where
  "tags_of s = scan_tags None s"

definition markup_free :: "string \<Rightarrow> bool" where
  "markup_free s = (CHR ''<'' \<notin> set s \<and> CHR ''>'' \<notin> set s)"

text \<open>The tags that \<open>formatMarkdown\<close> writes.\<close>

definition md_tags :: "string list" where
  "md_tags =
     [''h1'', ''/h1'', ''h2'', ''/h2'', ''h3'', ''/h3'', ''strong'', ''/strong'',
      ''code'', ''/code'', ''li'', ''/li'', ''ul'', ''/ul'', ''p'', ''/p'']"

text \<open>
  A scanner for texts whose only tags are those: outside a tag, or inside one with the
  characters read so far, which must go on to one of the tags.
\<close>

datatype scan_state = Outside | Inside string

fun md_step :: "scan_state \<Rightarrow> char \<Rightarrow> scan_state option" where
  "md_step Outside c =
     (if c = CHR ''<'' then Some (Inside [])
      else if c = CHR ''>'' then None
      else Some Outside)"
| "md_step (Inside t) c =
     (if c = CHR ''>'' then (if t \<in> set md_tags then Some Outside else None)
      else if \<exists>w \<in> set md_tags. prefix (t @ [c]) w then Some (Inside (t @ [c]))
      else None)"

fun md_run :: "scan_state \<Rightarrow> string \<Rightarrow> scan_state option" where
  "md_run q [] = Some q"
| "md_run q (c # cs) = (case md_step q c of None \<Rightarrow> None | Some q' \<Rightarrow> md_run q' cs)"

definition md_safe :: "string \<Rightarrow> bool" where
  "md_safe s = (md_run Outside s = Some Outside)"

text \<open>
  A matcher keeps such a text one: where it matches, the replacement takes the scanner
  to the state that the matched text took it to.
\<close>

definition safe_matcher :: "matcher \<Rightarrow> bool" where
  "safe_matcher m =
     (\<forall>prev s n r q.
        m prev s = Some (n, r) \<and> (at_line_start prev \<longrightarrow> q = Outside)
        \<and> md_run q s = Some Outside \<longrightarrow>
        1 \<le> n \<and> n \<le> length s
        \<and> (\<exists>q1. md_run q (take n s) = Some q1 \<and> md_run q r = Some q1))"

section \<open>Sample data\<close>

definition sample_event :: "rat \<Rightarrow> gc_event" where
  "sample_event p =
     \<lparr>gc_id = Some 7, timestamp = None, uptime_seconds = Some 2, pause_type = Some ''Young'',
      gc_type = None, cause = Some ''G1 Evacuation Pause'', pause_ms = Some p,
      heap_before_mb = Some 512, heap_after_mb = Some 128, heap_reclaimed_mb = Some 384,
      heap_total_mb = Some 1024, is_full_gc = Some False\<rparr>"

definition sample_events :: "gc_event list" where
  "sample_events = map sample_event [12, 0, 650, 3, 40, 5, 220, 18, 7]"

definition sample_platform :: platform where
  "sample_platform =
     \<lparr>toFixed = (\<lambda>v d. ''0''), num_to_string = (\<lambda>v. ''0''), toLocaleTimeString = (\<lambda>t. t)\<rparr>"

definition sample_analysis :: analysis_data where
  "sample_analysis =
     \<lparr>collector_type = ''G1GC'', events = Some sample_events,
      pause_distribution = Some [(''0-10ms'', 3), (''10-50ms'', 3), (''100-500ms'', 1),
        (''500ms-1s'', 1)],
      issues = Some [\<lparr>issue_type = ''long_pause'', severity = JStr ''critical'',
        description = JStr ''Max pause 650ms exceeds 500ms''\<rparr>]\<rparr>"

definition sample_ui :: ui where
  "sample_ui =
     \<lparr>ai_panel = [], ai_tab = Some ''[robot] AI Analysis'', model_badge = [],
      quick_btn_disabled = False, quick_btn_html = [], agentic_btn_disabled = False,
      agentic_btn_html = [], console = []\<rparr>"



definition sample_action_long_pauses :: jsval where
  "sample_action_long_pauses =
     JObj [(''tool_name'', JStr ''get_long_pauses''),
           (''arguments'', JObj [(''threshold_ms'', JNum 100)])]"

definition sample_action_full_gcs :: jsval where
  "sample_action_full_gcs =
     JObj [(''tool_name'', JStr ''get_full_gcs''), (''arguments'', JObj [])]"

section \<open>The events table shows the first 500 events\<close>





section \<open>The zoom range of the pause chart\<close>






















section \<open>The health check gates the automatic agentic analysis\<close>

lemma health_check_cases:
  "health_check sv =
     (case sv of
        Answers d r \<Rightarrow>
          if d < 3000 then
            (if \<not> ok r then Some (NotOk, d)
             else case json r of
                    Inl msg \<Rightarrow> Some (Thrown msg, d)
                  | Inr health \<Rightarrow>
                      if truthy (available health) then Some (Available, d)
                      else Some (NotRunning, d))
          else Some (Thrown timeout_message, 3000)
      | Fails d msg \<Rightarrow> if d < 3000 then Some (Thrown msg, d) else Some (Thrown timeout_message, 3000)
      | Silent \<Rightarrow> Some (Thrown timeout_message, 3000))"
  by (cases sv) (auto simp: health_check_def fetch_def health_request_def split: sum.splits)

lemma health_available_iff:
  "(\<exists>t. health_check sv = Some (Available, t)) \<longleftrightarrow>
   (\<exists>d r b. sv = Answers d r \<and> d < 3000 \<and> ok r \<and> json r = Inr b \<and> truthy (available b))"
  by (cases sv) (auto simp: health_check_cases split: sum.splits)

lemma health_check_settles: "\<exists>v t. health_check sv = Some (v, t) \<and> t \<le> 3000"
  by (cases sv) (auto simp: health_check_cases split: sum.splits)

lemma agentic_not_health: "agentic_request ad \<noteq> health_request"
  by (simp add: agentic_request_def health_request_def)

lemma auto_requests:
  "fst (snd (autoStartAgenticAnalysis ad h a u)) =
     (if (\<exists>t. health_check h = Some (Available, t)) then [health_request, agentic_request ad]
      else [health_request])"
proof -
  obtain v t where vt: "health_check h = Some (v, t)"
    using health_check_settles by blast
  show ?thesis
    by (cases v; cases "fetch (agentic_request ad) a")
       (auto simp: autoStartAgenticAnalysis_def vt split: settled.splits sum.splits prod.splits)
qed

text \<open>
  C2. The requests of \<open>autoStartAgenticAnalysis\<close>, which \<open>displayResults\<close> starts after
  rendering, are the health request alone, or the health request followed by the agentic
  one. The agentic request is sent exactly when the health request was answered before its
  timeout with an ok status and a body whose \<open>available\<close> is truthy; for the boolean of
  the health contract that is \<open>available == true\<close>. A health check that fails, times
  out, is not ok or reports \<open>available == false\<close> leaves the agentic endpoint alone.
\<close>

theorem auto_start_only_when_available:
  "(agentic_request ad \<in> set (fst (snd (autoStartAgenticAnalysis ad h a u))) \<longleftrightarrow>
      (\<exists>d r b. h = Answers d r \<and> d < 3000 \<and> ok r \<and> json r = Inr b \<and> truthy (available b)))
   \<and> (agentic_request ad \<in> set (fst (snd (autoStartAgenticAnalysis ad h a u))) \<longrightarrow>
        fst (snd (autoStartAgenticAnalysis ad h a u)) = [health_request, agentic_request ad])
   \<and> (agentic_request ad \<notin> set (fst (snd (autoStartAgenticAnalysis ad h a u))) \<longrightarrow>
        fst (snd (autoStartAgenticAnalysis ad h a u)) = [health_request])
   \<and> (\<forall>d r x. h = Answers d r \<and> json r = Inr \<lparr>available = JBool x\<rparr> \<longrightarrow>
        (agentic_request ad \<in> set (fst (snd (autoStartAgenticAnalysis ad h a u))) \<longleftrightarrow>
           d < 3000 \<and> ok r \<and> x = True))
   \<and> (\<forall>d msg. h = Fails d msg \<or> h = Silent \<or> (\<exists>r. h = Answers d r \<and> (3000 \<le> d \<or> \<not> ok r)) \<longrightarrow>
        agentic_request ad \<notin> set (fst (snd (autoStartAgenticAnalysis ad h a u))))
   \<and> (\<forall>v. displayResults pf tls width ad h a u = Inr v \<longrightarrow>
        rv_auto v = autoStartAgenticAnalysis ad h a u)"
proof -
  let ?sent = "agentic_request ad \<in> set (fst (snd (autoStartAgenticAnalysis ad h a u)))"
  have m: "?sent \<longleftrightarrow> (\<exists>t. health_check h = Some (Available, t))"
    using agentic_not_health [of ad] by (auto simp: auto_requests)
  have c1: "?sent \<longleftrightarrow>
      (\<exists>d r b. h = Answers d r \<and> d < 3000 \<and> ok r \<and> json r = Inr b \<and> truthy (available b))"
    unfolding m by (rule health_available_iff)
  have c2: "?sent \<longrightarrow>
        fst (snd (autoStartAgenticAnalysis ad h a u)) = [health_request, agentic_request ad]"
    unfolding m by (simp add: auto_requests)
  have c3: "\<not> ?sent \<longrightarrow> fst (snd (autoStartAgenticAnalysis ad h a u)) = [health_request]"
    unfolding m by (simp add: auto_requests)
  have c4: "\<forall>d r x. h = Answers d r \<and> json r = Inr \<lparr>available = JBool x\<rparr> \<longrightarrow>
        (?sent \<longleftrightarrow> d < 3000 \<and> ok r \<and> x = True)"
    unfolding m by (auto simp: health_check_cases split: if_splits)
  have c5: "\<forall>d msg. h = Fails d msg \<or> h = Silent \<or> (\<exists>r. h = Answers d r \<and> (3000 \<le> d \<or> \<not> ok r)) \<longrightarrow>
        \<not> ?sent"
    unfolding m by (auto simp: health_check_cases split: if_splits)
  have c6: "\<forall>v. displayResults pf tls width ad h a u = Inr v \<longrightarrow>
        rv_auto v = autoStartAgenticAnalysis ad h a u"
    by (auto simp: displayResults_def split: option.splits)
  from c1 c2 c3 c4 c5 c6 show ?thesis
    by (intro conjI)
qed

theorem auto_start_only_when_available_witness:
  "fst (snd (autoStartAgenticAnalysis sample_analysis
       (Answers 40 \<lparr>ok = True, json = Inr \<lparr>available = JBool True\<rparr>\<rparr>) Silent sample_ui))
     = [health_request, agentic_request sample_analysis]
   \<and> fst (snd (autoStartAgenticAnalysis sample_analysis
       (Answers 40 \<lparr>ok = True, json = Inr \<lparr>available = JBool False\<rparr>\<rparr>) Silent sample_ui))
     = [health_request]
   \<and> fst (snd (autoStartAgenticAnalysis sample_analysis
       (Answers 3000 \<lparr>ok = True, json = Inr \<lparr>available = JBool True\<rparr>\<rparr>) Silent sample_ui))
     = [health_request]
   \<and> fst (snd (autoStartAgenticAnalysis sample_analysis (Fails 5 ''Failed to fetch'') Silent sample_ui))
     = [health_request]"
proof -
  let ?rqs = "\<lambda>h. fst (snd (autoStartAgenticAnalysis sample_analysis h Silent sample_ui))"
  let ?sent = "\<lambda>h. agentic_request sample_analysis \<in> set (?rqs h)"
  note t = auto_start_only_when_available [of sample_analysis _ Silent sample_ui
      sample_platform show_nat 890]
  have yes: "?sent h \<Longrightarrow> ?rqs h = [health_request, agentic_request sample_analysis]" for h
    using t [of h] by blast
  have no: "\<not> ?sent h \<Longrightarrow> ?rqs h = [health_request]" for h
    using t [of h] by blast
  have gate: "h = Answers d r \<Longrightarrow> json r = Inr \<lparr>available = JBool x\<rparr> \<Longrightarrow>
      ?sent h \<longleftrightarrow> d < 3000 \<and> ok r \<and> x = True" for h d r x
    using t [of h] by blast
  have never: "h = Fails d msg \<Longrightarrow> \<not> ?sent h" for h d msg
    using t [of h] by blast
  have "?sent (Answers 40 \<lparr>ok = True, json = Inr \<lparr>available = JBool True\<rparr>\<rparr>)"
    using gate [where h = "Answers 40 \<lparr>ok = True, json = Inr \<lparr>available = JBool True\<rparr>\<rparr>"
        and d = 40 and r = "\<lparr>ok = True, json = Inr \<lparr>available = JBool True\<rparr>\<rparr>" and x = True]
    by simp
  moreover have "\<not> ?sent (Answers 40 \<lparr>ok = True, json = Inr \<lparr>available = JBool False\<rparr>\<rparr>)"
    using gate [where h = "Answers 40 \<lparr>ok = True, json = Inr \<lparr>available = JBool False\<rparr>\<rparr>"
        and d = 40 and r = "\<lparr>ok = True, json = Inr \<lparr>available = JBool False\<rparr>\<rparr>" and x = False]
    by simp
  moreover have "\<not> ?sent (Answers 3000 \<lparr>ok = True, json = Inr \<lparr>available = JBool True\<rparr>\<rparr>)"
    using gate [where h = "Answers 3000 \<lparr>ok = True, json = Inr \<lparr>available = JBool True\<rparr>\<rparr>"
        and d = 3000 and r = "\<lparr>ok = True, json = Inr \<lparr>available = JBool True\<rparr>\<rparr>" and x = True]
    by simp
  moreover have "\<not> ?sent (Fails 5 ''Failed to fetch'')"
    by (rule never [OF refl])
  ultimately show ?thesis
    using yes no by blast
qed

section \<open>The health request is bounded and its failure means unavailable\<close>

lemma auto_skipped_iff:
  "auto_skipped ad h a u \<longleftrightarrow> \<not> (\<exists>t. health_check h = Some (Available, t))"
proof -
  obtain v t where vt: "health_check h = Some (v, t)" "t \<le> 3000"
    using health_check_settles by blast
  show ?thesis
    using vt(2) agentic_not_health [of ad]
    by (cases v; cases "fetch (agentic_request ad) a")
       (auto simp: auto_skipped_def autoStartAgenticAnalysis_def vt(1) log_def auto_catch_def
          set_tab_def split: settled.splits sum.splits prod.splits option.splits)
qed

text \<open>
  C4. Every run of \<open>autoStartAgenticAnalysis\<close> sends the health request first, and that
  request carries a timeout of 3000 ms; whatever the server does, the health check is
  settled after at most 3000 ms. A request that fails or times out counts as an
  unavailable backend: the function returns within the 3000 ms, having sent nothing else
  and left the AI panel as it was.
\<close>

theorem health_request_bounded:
  "timeout_ms health_request = Some 3000
   \<and> (\<exists>rest. fst (snd (autoStartAgenticAnalysis ad h a u)) = health_request # rest
        \<and> health_request \<notin> set rest)
   \<and> (\<exists>v t. health_check h = Some (v, t) \<and> t \<le> 3000)
   \<and> (\<forall>d msg. h = Fails d msg \<or> h = Silent \<or> (\<exists>r. h = Answers d r \<and> 3000 \<le> d) \<longrightarrow>
        (\<exists>m t. health_check h = Some (Thrown m, t)) \<and> auto_skipped ad h a u)"
proof -
  have "\<exists>rest. fst (snd (autoStartAgenticAnalysis ad h a u)) = health_request # rest
        \<and> health_request \<notin> set rest"
    using agentic_not_health [of ad] by (auto simp: auto_requests)
  moreover have "\<forall>d msg. h = Fails d msg \<or> h = Silent \<or> (\<exists>r. h = Answers d r \<and> 3000 \<le> d) \<longrightarrow>
        (\<exists>m t. health_check h = Some (Thrown m, t)) \<and> auto_skipped ad h a u"
    by (auto simp: auto_skipped_iff health_check_cases)
  ultimately show ?thesis
    using health_check_settles [of h] by (simp add: health_request_def)
qed

theorem health_request_bounded_witness:
  "health_check (Silent :: health_body server) = Some (Thrown timeout_message, 3000)
   \<and> auto_skipped sample_analysis Silent Silent sample_ui
   \<and> auto_skipped sample_analysis (Fails 12 ''Failed to fetch'') Silent sample_ui
   \<and> auto_skipped sample_analysis
        (Answers 4000 \<lparr>ok = True, json = Inr \<lparr>available = JBool True\<rparr>\<rparr>) Silent sample_ui"
proof -
  note t = health_request_bounded [of sample_analysis _ Silent sample_ui]
  show ?thesis
    using t [of Silent] t [of "Fails 12 ''Failed to fetch''"]
      t [of "Answers 4000 \<lparr>ok = True, json = Inr \<lparr>available = JBool True\<rparr>\<rparr>"]
    by (simp add: health_check_cases)
qed

section \<open>Error payloads of the analysis requests\<close>

lemma fetch_no_timeout_answers:
  "timeout_ms rq = None \<Longrightarrow> fetch rq (Answers d r) = Some (Resolved r, d)"
  "timeout_ms rq = None \<Longrightarrow> fetch rq (Fails d msg) = Some (Rejected msg, d)"
  "timeout_ms rq = None \<Longrightarrow> fetch rq Silent = None"
  by (simp_all add: fetch_def)






section \<open>The chat request\<close>

lemma trim_empty_iff: "trim s = [] \<longleftrightarrow> (\<forall>ch \<in> set s. is_js_space ch)"
proof -
  have "trim s = [] \<longleftrightarrow> (\<forall>ch \<in> set (dropWhile is_js_space s). is_js_space ch)"
    by (simp add: trim_def dropWhile_eq_Nil_conv)
  also have "\<dots> \<longleftrightarrow> dropWhile is_js_space s = []"
  proof
    assume a: "\<forall>ch \<in> set (dropWhile is_js_space s). is_js_space ch"
    show "dropWhile is_js_space s = []"
    proof (rule ccontr)
      assume "dropWhile is_js_space s \<noteq> []"
      then have "\<not> is_js_space (hd (dropWhile is_js_space s))"
        by (rule hd_dropWhile)
      moreover have "hd (dropWhile is_js_space s) \<in> set (dropWhile is_js_space s)"
        using \<open>dropWhile is_js_space s \<noteq> []\<close> by simp
      ultimately show False using a by blast
    qed
  qed (auto dest: set_dropWhileD)
  also have "\<dots> \<longleftrightarrow> (\<forall>ch \<in> set s. is_js_space ch)"
    by (simp add: dropWhile_eq_Nil_conv)
  finally show ?thesis .
qed

lemma update_by_id_shows:
  assumes "\<exists>m \<in> set ms. m_id m = Some i" and "\<And>m. m_html (f m) = h"
  shows "h \<in> m_html ` set (update_by_id i f ms)"
  using assms(1)
proof (induction ms)
  case Nil
  then show ?case by simp
next
  case (Cons m ms)
  show ?case
  proof (cases "m_id m = Some i")
    case True
    then show ?thesis using assms(2) [of m] by (simp add: image_iff)
  next
    case False
    with Cons have "h \<in> m_html ` set (update_by_id i f ms)" by auto
    with False show ?thesis by simp
  qed
qed

lemma chat_sent:
  "fst (snd (sendChatMessage ad now sv c)) =
     (if trim (input_value c) = [] then [] else [chat_request (trim (input_value c)) ad])"
  by (cases "fetch (chat_request (trim (input_value c)) ad) sv")
     (auto simp: sendChatMessage_def Let_def split: settled.splits sum.splits)

lemma chat_messages_answered:
  assumes "trim (input_value c) \<noteq> []" "json r = Inr result"
  shows "messages (fst (sendChatMessage ad now (Answers d r) c)) =
     update_by_id (''loading-'' @ show_nat now)
       (\<lambda>m. if truthy (c_error result)
            then m\<lparr>m_class := ''ai-chat-message error'', m_html := escapeHtml (c_error result)\<rparr>
            else m\<lparr>m_html := formatMarkdown (c_answer result)\<rparr>)
       (messages c
        @ [\<lparr>m_class = ''ai-chat-message user'', m_id = None,
            m_html = escapeHtml (JStr (trim (input_value c)))\<rparr>,
           \<lparr>m_class = ''ai-chat-message assistant'', m_id = Some (''loading-'' @ show_nat now),
            m_html = ''Thinking...''\<rparr>])"
  using assms
  by (simp add: sendChatMessage_def Let_def fetch_no_timeout_answers chat_request_def
      chat_finally_def chat_show_def chat_start_def)

text \<open>
  C6. A question that is not empty after trimming is sent in one POST request to
  \<open>/ai-chat\<close> whose body is the trimmed question with the analysis as context; when the
  server answers, the chat shows the escaped \<open>error\<close> of the answer if that is truthy
  and the formatted \<open>answer\<close> otherwise. An empty question, or one of white space only,
  sends nothing and changes nothing.
\<close>

theorem chat_sends_trimmed_question:
  "(trim (input_value c) \<noteq> [] \<longrightarrow>
      fst (snd (sendChatMessage ad now sv c)) =
        [\<lparr>url = ''/ai-chat'', http_method = ''POST'', timeout_ms = None,
          body = ChatBody (trim (input_value c)) ad\<rparr>])
   \<and> (trim (input_value c) \<noteq> [] \<and> json r = Inr result \<longrightarrow>
        (if truthy (c_error result) then escapeHtml (c_error result)
         else formatMarkdown (c_answer result))
          \<in> m_html ` set (messages (fst (sendChatMessage ad now (Answers d r) c))))
   \<and> ((\<forall>ch \<in> set (input_value c). is_js_space ch) \<longrightarrow>
        sendChatMessage ad now sv c = (c, [], Some 0))"
proof (intro conjI impI)
  assume "trim (input_value c) \<noteq> []"
  then show "fst (snd (sendChatMessage ad now sv c)) =
        [\<lparr>url = ''/ai-chat'', http_method = ''POST'', timeout_ms = None,
          body = ChatBody (trim (input_value c)) ad\<rparr>]"
    by (simp add: chat_sent chat_request_def)
next
  assume a: "trim (input_value c) \<noteq> [] \<and> json r = Inr result"
  let ?h = "if truthy (c_error result) then escapeHtml (c_error result)
         else formatMarkdown (c_answer result)"
  have "?h \<in> m_html ` set (update_by_id (''loading-'' @ show_nat now)
       (\<lambda>m. if truthy (c_error result)
            then m\<lparr>m_class := ''ai-chat-message error'', m_html := escapeHtml (c_error result)\<rparr>
            else m\<lparr>m_html := formatMarkdown (c_answer result)\<rparr>)
       (messages c
        @ [\<lparr>m_class = ''ai-chat-message user'', m_id = None,
            m_html = escapeHtml (JStr (trim (input_value c)))\<rparr>,
           \<lparr>m_class = ''ai-chat-message assistant'', m_id = Some (''loading-'' @ show_nat now),
            m_html = ''Thinking...''\<rparr>]))"
    by (rule update_by_id_shows) auto
  then show "?h \<in> m_html ` set (messages (fst (sendChatMessage ad now (Answers d r) c)))"
    using a by (simp add: chat_messages_answered)
next
  assume "\<forall>ch \<in> set (input_value c). is_js_space ch"
  then have "trim (input_value c) = []" by (simp add: trim_empty_iff)
  then show "sendChatMessage ad now sv c = (c, [], Some 0)"
    by (simp add: sendChatMessage_def)
qed

theorem chat_sends_trimmed_question_witness:
  "fst (snd (sendChatMessage sample_analysis 1700 Silent
       \<lparr>input_value = ''  why so slow? '', input_disabled = False, messages = []\<rparr>)) =
     [\<lparr>url = ''/ai-chat'', http_method = ''POST'', timeout_ms = None,
       body = ChatBody ''why so slow?'' sample_analysis\<rparr>]
   \<and> ''<p>Full GCs</p>'' \<in> m_html ` set (messages (fst (sendChatMessage sample_analysis 1700
        (Answers 250 \<lparr>ok = True, json = Inr \<lparr>c_answer = JStr ''Full GCs'', c_error = JUndefined\<rparr>\<rparr>)
        \<lparr>input_value = ''  why so slow? '', input_disabled = False, messages = []\<rparr>)))
   \<and> sendChatMessage sample_analysis 1700 Silent
        \<lparr>input_value = ''   '', input_disabled = False, messages = []\<rparr> =
       (\<lparr>input_value = ''   '', input_disabled = False, messages = []\<rparr>, [], Some 0)"
proof -
  let ?c = "\<lparr>input_value = ''  why so slow? '', input_disabled = False, messages = []\<rparr>"
  let ?e = "\<lparr>input_value = ''   '', input_disabled = False, messages = []\<rparr>"
  let ?res = "\<lparr>c_answer = JStr ''Full GCs'', c_error = JUndefined\<rparr>"
  have t: "trim ''  why so slow? '' = ''why so slow?''"
    by (simp add: trim_def is_js_space_def)
  have s: "\<forall>ch \<in> set (input_value ?e). is_js_space ch"
    by (simp add: is_js_space_def)
  have f: "formatMarkdown (JStr ''Full GCs'') = ''<p>Full GCs</p>''"
    by code_simp
  show ?thesis
    using chat_sends_trimmed_question [of ?c sample_analysis 1700 Silent
        "\<lparr>ok = True, json = Inr ?res\<rparr>" ?res 250]
      chat_sends_trimmed_question [of ?e sample_analysis 1700 Silent
        "\<lparr>ok = True, json = Inr ?res\<rparr>" ?res 250] s
    by (simp add: t f)
qed

section \<open>The action of a step in the trace\<close>

lemma escape_char_nonempty: "escape_char c \<noteq> []"
  by (simp add: escape_char_def)

lemma escape_char_prefix_free:
  "escape_char c @ xs = escape_char d @ ys \<Longrightarrow> c = d \<and> xs = ys"
  by (auto simp: escape_char_def split: if_splits)

lemma serialize_text_inj: "serialize_text a = serialize_text b \<Longrightarrow> a = b"
proof (induction a arbitrary: b)
  case Nil
  then show ?case
    by (cases b) (simp_all add: serialize_text_def escape_char_nonempty)
next
  case (Cons c a)
  show ?case
  proof (cases b)
    case Nil
    with Cons.prems show ?thesis
      by (simp add: serialize_text_def escape_char_nonempty)
  next
    case (Cons d b')
    with Cons.prems have "escape_char c @ serialize_text a = escape_char d @ serialize_text b'"
      by (simp add: serialize_text_def)
    then have "c = d" "serialize_text a = serialize_text b'"
      using escape_char_prefix_free by blast+
    with Cons.IH Cons show ?thesis by simp
  qed
qed

lemma sublist_concat_map: "x \<in> set xs \<Longrightarrow> sublist (f x) (concat (map f xs))"
proof -
  assume "x \<in> set xs"
  then obtain as bs where "xs = as @ x # bs" by (auto dest: split_list)
  then have "concat (map f xs) = concat (map f as) @ f x @ concat (map f bs)" by simp
  then show ?thesis unfolding sublist_def by blast
qed

lemma sublist_Cons_rightI: "sublist xs ys \<Longrightarrow> sublist xs (y # ys)"
  by (simp add: sublist_Cons_right)

lemma sublist_append_skipI: "sublist xs zs \<Longrightarrow> sublist xs (ys @ zs)"
  by (simp add: sublist_append)

lemma sublist_step_action: "sublist (step_action_html (action s)) (step_html s)"
  unfolding step_html_def
  by (rule sublist_append_rightI | rule sublist_Cons_rightI | rule sublist_append_skipI)+

lemma sublist_append_keepI: "sublist xs ys \<Longrightarrow> sublist xs (ys @ zs)"
  by (simp add: sublist_append)

lemma sublist_trace_steps:
  assumes "steps result = Some ss" "ss \<noteq> []"
  shows "sublist (concat (map step_html ss)) (displayAgenticResult result)"
  unfolding displayAgenticResult_def
  apply (rule sublist_append_skipI)
  apply (rule sublist_append_keepI)
  apply (simp only: assms option.case length_greater_0_conv if_True not_False_eq_True simp_thms)
  apply (rule sublist_append_rightI | rule sublist_append_skipI)+
  done

lemma sublist_trace:
  assumes "steps result = Some ss" "s \<in> set ss"
  shows "sublist (step_html s) (displayAgenticResult result)"
proof -
  from assms have ne: "ss \<noteq> []" by auto
  have "sublist (step_html s) (concat (map step_html ss))"
    using assms(2) by (rule sublist_concat_map)
  with sublist_trace_steps [OF assms(1) ne] show ?thesis
    by (rule sublist_order.order_trans [rotated])
qed

text \<open>
  C7, as the code has it. The renderer passes \<open>step.action\<close> to \<open>escapeHtml\<close>, that is
  it treats the action as text: an absent, null or empty action gives no action element;
  an action that is a non-empty string gives the element with the escaped text, from
  which the text can be read back; and the element of every step of the trace is part of
  the rendered result.
\<close>

theorem action_text_is_displayed:
  "step_action_html JUndefined = []
   \<and> step_action_html JNull = []
   \<and> step_action_html (JStr []) = []
   \<and> (a \<noteq> [] \<longrightarrow>
        step_action_html (JStr a) =
          ''<div class=\"agentic-step-action\">'' @ serialize_text a @ ''</div>'')
   \<and> (step_action_html (JStr a) = step_action_html (JStr b) \<longrightarrow> a = b)
   \<and> (steps result = Some ss \<and> s \<in> set ss \<longrightarrow>
        sublist (step_action_html (action s)) (displayAgenticResult result))"
proof -
  have inj: "step_action_html (JStr a) = step_action_html (JStr b) \<longrightarrow> a = b"
    using serialize_text_inj [of a b]
    by (auto simp: step_action_html_def escapeHtml_def)
  have sub: "steps result = Some ss \<and> s \<in> set ss \<longrightarrow>
        sublist (step_action_html (action s)) (displayAgenticResult result)"
    using sublist_trace [of result ss s] sublist_step_action [of s]
    by (auto intro: sublist_order.order_trans)
  show ?thesis
    using inj sub by (simp add: step_action_html_def escapeHtml_def)
qed

theorem action_text_is_displayed_witness:
  "step_action_html (JStr ''get_long_pauses(threshold_ms=100)'') =
     ''<div class=\"agentic-step-action\">get_long_pauses(threshold_ms=100)</div>''
   \<and> sublist ''<div class=\"agentic-step-action\">get_long_pauses(threshold_ms=100)</div>''
        (displayAgenticResult
           \<lparr>steps = Some [\<lparr>step = Some 1, thought = JStr ''Look at long pauses'',
                action = JStr ''get_long_pauses(threshold_ms=100)'',
                observation = JStr ''1 pause'', is_final = JBool False\<rparr>],
            total_steps = Some 1, final_answer = JUndefined, recommendations = None,
            issues_found = None, model = JUndefined, error = JUndefined\<rparr>)"
proof -
  let ?s = "\<lparr>step = Some 1, thought = JStr ''Look at long pauses'',
                action = JStr ''get_long_pauses(threshold_ms=100)'',
                observation = JStr ''1 pause'', is_final = JBool False\<rparr>"
  let ?r = "\<lparr>steps = Some [?s],
            total_steps = Some 1, final_answer = JUndefined, recommendations = None,
            issues_found = None, model = JUndefined, error = JUndefined\<rparr>"
  have e: "serialize_text ''get_long_pauses(threshold_ms=100)'' = ''get_long_pauses(threshold_ms=100)''"
    by (simp add: serialize_text_def escape_char_def)
  note t = action_text_is_displayed [of "''get_long_pauses(threshold_ms=100)''" "[]" ?r "[?s]" ?s]
  have f1: "step_action_html (JStr ''get_long_pauses(threshold_ms=100)'') =
     ''<div class=\"agentic-step-action\">get_long_pauses(threshold_ms=100)</div>''"
    using t by (simp add: e)
  from t have "steps ?r = Some [?s] \<and> ?s \<in> set [?s] \<longrightarrow>
        sublist (step_action_html (action ?s)) (displayAgenticResult ?r)"
    by (elim conjE)
  then have "sublist (step_action_html (JStr ''get_long_pauses(threshold_ms=100)''))
      (displayAgenticResult ?r)"
    by simp
  then have "sublist ''<div class=\"agentic-step-action\">get_long_pauses(threshold_ms=100)</div>''
      (displayAgenticResult ?r)"
    unfolding f1 .
  with f1 show ?thesis
    by (intro conjI)
qed

text \<open>
  The claim as stated fails for the structured action of the data model: the text
  conversion of an object is \<open>[object Object]\<close>, so two different structured actions are
  displayed alike and neither the tool nor its arguments are shown.
\<close>

theorem structured_action_counterexample:
  "step_action_html sample_action_long_pauses =
     ''<div class=\"agentic-step-action\">[object Object]</div>''
   \<and> step_action_html sample_action_full_gcs =
     ''<div class=\"agentic-step-action\">[object Object]</div>''
   \<and> sample_action_long_pauses \<noteq> sample_action_full_gcs"
  by (simp add: step_action_html_def escapeHtml_def serialize_text_def escape_char_def
      sample_action_long_pauses_def sample_action_full_gcs_def)

section \<open>The pause distribution and its chart\<close>














section \<open>The agent controller terminates its trace\<close>

lemma agent_loop_trace:
  "0 < left \<Longrightarrow>
   (let run = agent_loop ask tools left k ctx obs
    in ar_steps run \<noteq> [] \<and> length (ar_steps run) \<le> left
       \<and> ts_is_final (last (ar_steps run))
       \<and> (\<forall>s \<in> set (butlast (ar_steps run)). \<not> ts_is_final s)
       \<and> ar_final_answer run \<noteq> None)"
proof (induction left arbitrary: k ctx obs)
  case 0
  then show ?case by simp
next
  case (Suc left)
  show ?case
  proof (cases "ask ctx")
    case (FinalAnswer th answer)
    then show ?thesis by simp
  next
    case LlmFailure
    then show ?thesis by simp
  next
    case (ToolCall th name args)
    show ?thesis
    proof (cases "left = 0")
      case True
      with ToolCall show ?thesis by (simp add: Let_def)
    next
      case False
      then have "0 < left" by simp
      from Suc.IH [OF this, of "Suc k" "ctx @ [dispatch tools name args]"
          "obs @ [dispatch tools name args]"]
      show ?thesis using ToolCall False by (simp add: Let_def)
    qed
  qed
qed

lemma agent_loop_no_final:
  "(\<forall>c. \<exists>th name args. ask c = ToolCall th name args) \<Longrightarrow>
   length (ar_steps (agent_loop ask tools left k ctx obs)) = left"
proof (induction left arbitrary: k ctx obs)
  case 0
  then show ?case by simp
next
  case (Suc left)
  from Suc.prems obtain th name args where m: "ask ctx = ToolCall th name args" by blast
  show ?case
    using Suc.IH [OF Suc.prems] m by (cases "left = 0") (simp_all add: Let_def)
qed

text \<open>
  C1. For every model, every tool registry, every input and every positive step cap, the
  trace of the controller is not empty, has at most \<open>N_max\<close> steps, ends with a step
  marked final and marks no earlier step final, and the run has a conclusion. A model
  that never gives a final answer gets a trace of exactly \<open>N_max\<close> steps whose last
  step is marked final.
\<close>

theorem agent_trace_terminated:
  "0 < N_max \<longrightarrow>
     ar_steps (run_agent ask tools N_max input) \<noteq> []
     \<and> length (ar_steps (run_agent ask tools N_max input)) \<le> N_max
     \<and> ts_is_final (last (ar_steps (run_agent ask tools N_max input)))
     \<and> (\<forall>s \<in> set (butlast (ar_steps (run_agent ask tools N_max input))). \<not> ts_is_final s)
     \<and> ar_final_answer (run_agent ask tools N_max input) \<noteq> None
     \<and> ((\<forall>c. \<exists>th name args. ask c = ToolCall th name args) \<longrightarrow>
          length (ar_steps (run_agent ask tools N_max input)) = N_max)"
  using agent_loop_trace [of N_max ask tools 1 input "[]"]
    agent_loop_no_final [of ask tools N_max 1 input "[]"]
  by (simp add: run_agent_def Let_def)

theorem agent_trace_terminated_witness:
  "length (ar_steps (run_agent stubborn_model sample_tools 3 [''collector: G1''])) = 3
   \<and> ts_is_final (last (ar_steps (run_agent stubborn_model sample_tools 3 [''collector: G1''])))
   \<and> map ts_is_final (ar_steps (run_agent stubborn_model sample_tools 3 [''collector: G1'']))
        = [False, False, True]
   \<and> ar_final_answer (run_agent stubborn_model sample_tools 3 [''collector: G1'']) \<noteq> None"
proof -
  have m: "\<forall>c. \<exists>th name args. stubborn_model c = ToolCall th name args"
    by (simp add: stubborn_model_def)
  have e: "map ts_is_final (ar_steps (run_agent stubborn_model sample_tools 3 [''collector: G1'']))
        = [False, False, True]"
    by (simp add: run_agent_def stubborn_model_def numeral_3_eq_3 Let_def)
  show ?thesis
    using agent_trace_terminated [of 3 stubborn_model sample_tools "[''collector: G1'']"] m e
    by simp
qed

end
